theory Spec2Isabelle
  imports Main
begin

section \<open>The declaration language\<close>

text \<open>
  Both source files are ambient TypeScript declaration files. What they contain is
  declarations: classes with typed members, interfaces, type aliases, imports. The
  embedding therefore has the declarations as data, as the files write them, and the
  type-level operations the declarations themselves use (indexed access on \<open>this\<close>,
  \<open>ReturnType\<close>, conditional types over a type parameter) as functions on that data.
\<close>

type_synonym qname = "string list"

datatype kw =
  KBoolean | KString | KNumber | KObject | KUnknown | KVoid | KNever | KNull | KUndefined

text \<open>
  Types as the source writes them. \<open>TRef\<close> is a (possibly qualified) type name with its
  type arguments; \<open>TFun\<close> is the type a method member has when it is read through an
  indexed access such as \<open>this["getDimensions"]\<close>. A property signature carries its
  name, whether it is optional (\<open>?\<close>), its type and the lines of its doc comment.
\<close>

datatype ty =
    TKw kw
  | TThis
  | TRef qname "ty list"
  | TLitBool bool
  | TLitStr string
  | TLitNum nat
  | TIndexed ty ty
  | TUnion "ty list"
  | TInter "ty list"
  | TCond ty ty ty ty
  | TArray ty
  | TTuple "ty list"
  | TTypeof qname
  | TInfer string
  | TFun "param list" ty
  | TObj "sig list"
and param = Param string bool ty
and sig =
    PropSig string bool ty "string list"
  | MethSig string "param list" ty

text \<open>A type parameter: name, constraint (\<open>extends\<close>) and default (\<open>=\<close>).\<close>

datatype tparam = TParam string "ty option" "ty option"

text \<open>Heritage expressions: a name, a call, a name instantiated with type arguments.\<close>

datatype expr =
    EName qname
  | ECall expr "expr list"
  | EInst expr "ty list"

datatype modifier = Static | Protected | Override

datatype mkind = Property | Getter | Method

text \<open>
  A class member. \<open>mtype\<close> is the annotated type of a field, the annotated result type
  of a getter or method (\<open>None\<close> when the source writes no annotation). \<open>mbody\<close> is
  the text of the body between braces when the member has one, \<open>None\<close> for a bare
  signature.
\<close>

record member =
  mname :: string
  mkind :: mkind
  mmods :: "modifier list"
  mtparams :: "tparam list"
  mparams :: "param list"
  mtype :: "ty option"
  mbody :: "string option"
  mdoc :: "string list"

datatype export_kind = NoExport | Export | ExportDefault

record class_decl =
  cname :: string
  cexport :: export_kind
  cextends :: "expr option"
  cmembers :: "member list"
  cdoc :: "string list"

datatype decl =
    DClass class_decl
  | DInterface string "qname list" "sig list"
  | DTypeAlias string "tparam list" ty
  | DNamespace string "decl list"
  | DGlobal "decl list"

datatype import_decl =
    ImportTypeNamed "string list" string
  | ImportTypeDefault string string
  | ImportStar string string
  | ImportNamed "string list" string

record source_file =
  fpath :: string
  fimports :: "import_decl list"
  fdecls :: "decl list"

section \<open>scene.d.mts\<close>

text \<open>
  \<^verbatim>\<open>src/foundry/client/data/documents/scene.d.mts\<close>: the global class \<open>Scene\<close>, the
  global interface \<open>SceneDimensions\<close> and the module-level interface
  \<open>ThumbnailCreationData\<close>. One constant per member, in source order.
\<close>

definition Scene_viewPosition :: member where
  "Scene_viewPosition = \<lparr>mname = ''_viewPosition'', mkind = Property, mmods = [],
     mtparams = [], mparams = [],
     mtype = Some (TRef [''CanvasViewPosition''] []), mbody = None,
     mdoc = [''Track the viewed position of each scene (while in memory only, not persisted)'',
             ''When switching back to a previously viewed scene, we can automatically pan to the previous position.'',
             ''@defaultValue `{}`'',
             ''@remarks This is intentionally public because it is used in Canvas._initializeCanvasPosition() and Canvas.pan()'']\<rparr>"

definition Scene_view_flag :: member where
  "Scene_view_flag = \<lparr>mname = ''_view'', mkind = Property, mmods = [Protected],
     mtparams = [], mparams = [],
     mtype = Some (TIndexed TThis (TLitStr ''active'')), mbody = None,
     mdoc = [''Track whether the scene is the active view'']\<rparr>"

definition Scene_dimensions :: member where
  "Scene_dimensions = \<lparr>mname = ''dimensions'', mkind = Property, mmods = [],
     mtparams = [], mparams = [],
     mtype = Some (TRef [''ReturnType''] [TIndexed TThis (TLitStr ''getDimensions'')]),
     mbody = None,
     mdoc = [''Determine the canvas dimensions this Scene would occupy, if rendered'',
             ''@defaultValue `{}`'']\<rparr>"

definition Scene_thumbnail :: member where
  "Scene_thumbnail = \<lparr>mname = ''thumbnail'', mkind = Getter, mmods = [],
     mtparams = [], mparams = [],
     mtype = Some (TIndexed TThis (TLitStr ''thumb'')), mbody = None,
     mdoc = [''Provide a thumbnail image path used to represent this document.'']\<rparr>"

definition Scene_isView :: member where
  "Scene_isView = \<lparr>mname = ''isView'', mkind = Getter, mmods = [],
     mtparams = [], mparams = [],
     mtype = Some (TKw KBoolean), mbody = None,
     mdoc = [''A convenience accessor for whether the Scene is currently viewed'']\<rparr>"

definition Scene_activate :: member where
  "Scene_activate = \<lparr>mname = ''activate'', mkind = Method, mmods = [],
     mtparams = [], mparams = [],
     mtype = Some (TRef [''Promise''] [TUnion [TThis, TKw KUndefined]]), mbody = None,
     mdoc = [''Set this scene as currently active'',
             ''@returns A Promise which resolves to the current scene once it has been successfully activated'']\<rparr>"

definition Scene_view :: member where
  "Scene_view = \<lparr>mname = ''view'', mkind = Method, mmods = [],
     mtparams = [], mparams = [],
     mtype = Some (TRef [''Promise''] [TUnion [TThis, TKw KUndefined]]), mbody = None,
     mdoc = [''Set this scene as the current view'']\<rparr>"

definition Scene_clone :: member where
  "Scene_clone = \<lparr>mname = ''clone'', mkind = Method, mmods = [Override],
     mtparams = [TParam ''Save'' (Some (TKw KBoolean)) (Some (TLitBool False))],
     mparams =
       [Param ''createData'' True (TRef [''foundry'', ''documents'', ''BaseScene'', ''ConstructorData''] []),
        Param ''context'' True
          (TRef [''InexactPartial'']
             [TInter
                [TObj
                   [PropSig ''save'' False (TRef [''Save''] [])
                      [''Save the clone to the World database?'', ''@defaultValue `false`''],
                    PropSig ''keepId'' False (TKw KBoolean)
                      [''Keep the same ID of the original document'', ''@defaultValue `false`'']],
                 TRef [''DocumentConstructionContext''] []]])],
     mtype = Some (TCond (TRef [''Save''] []) (TLitBool True) (TRef [''Promise''] [TThis]) TThis),
     mbody = None,
     mdoc = [''@param createData - (default: `{}`)'',
             ''@param options    - (default: `{}`)'']\<rparr>"

definition Scene_reset :: member where
  "Scene_reset = \<lparr>mname = ''reset'', mkind = Method, mmods = [Override],
     mtparams = [], mparams = [], mtype = Some (TKw KVoid), mbody = None, mdoc = []\<rparr>"

definition Scene_prepareBaseData :: member where
  "Scene_prepareBaseData = \<lparr>mname = ''prepareBaseData'', mkind = Method, mmods = [Override],
     mtparams = [], mparams = [], mtype = Some (TKw KVoid), mbody = None, mdoc = []\<rparr>"

definition Scene_getDimensions :: member where
  "Scene_getDimensions = \<lparr>mname = ''getDimensions'', mkind = Method, mmods = [],
     mtparams = [], mparams = [],
     mtype = Some (TRef [''SceneDimensions''] []), mbody = None,
     mdoc = [''Get the Canvas dimensions which would be used to display this Scene.'',
             ''Apply padding to enlarge the playable space and round to the nearest 2x grid size to ensure symmetry.'',
             ''The rounding accomplishes that the padding buffer around the map always contains whole grid spaces.'']\<rparr>"

definition Scene_onClickDocumentLink :: member where
  "Scene_onClickDocumentLink = \<lparr>mname = ''_onClickDocumentLink'', mkind = Method,
     mmods = [Override], mtparams = [],
     mparams = [Param ''event'' False (TRef [''MouseEvent''] [])],
     mtype = Some (TKw KUnknown), mbody = None, mdoc = []\<rparr>"

definition Scene_preCreate :: member where
  "Scene_preCreate = \<lparr>mname = ''_preCreate'', mkind = Method, mmods = [Protected, Override],
     mtparams = [],
     mparams =
       [Param ''data'' False (TRef [''foundry'', ''documents'', ''BaseScene'', ''ConstructorData''] []),
        Param ''options'' False (TRef [''DocumentModificationOptions''] []),
        Param ''user'' False (TRef [''foundry'', ''documents'', ''BaseUser''] [])],
     mtype = Some (TRef [''Promise''] [TKw KVoid]), mbody = None, mdoc = []\<rparr>"

definition Scene_onCreate :: member where
  "Scene_onCreate = \<lparr>mname = ''_onCreate'', mkind = Method, mmods = [Protected, Override],
     mtparams = [],
     mparams =
       [Param ''data'' False (TIndexed TThis (TLitStr ''_source'')),
        Param ''options'' False (TRef [''DocumentModificationOptions''] []),
        Param ''userId'' False (TKw KString)],
     mtype = Some (TKw KVoid), mbody = None, mdoc = []\<rparr>"

definition Scene_preUpdate :: member where
  "Scene_preUpdate = \<lparr>mname = ''_preUpdate'', mkind = Method, mmods = [Protected, Override],
     mtparams = [],
     mparams =
       [Param ''changed'' False (TRef [''foundry'', ''documents'', ''BaseScene'', ''ConstructorData''] []),
        Param ''options'' False (TRef [''DocumentModificationOptions''] []),
        Param ''user'' False (TRef [''foundry'', ''documents'', ''BaseUser''] [])],
     mtype = Some (TRef [''Promise''] [TKw KVoid]), mbody = None, mdoc = []\<rparr>"

definition Scene_repositionObject :: member where
  "Scene_repositionObject = \<lparr>mname = ''_repositionObject'', mkind = Method,
     mmods = [Protected], mtparams = [],
     mparams =
       [Param ''sceneUpdateData'' False
          (TRef [''foundry'', ''documents'', ''BaseScene'', ''ConstructorData''] [])],
     mtype = Some (TRef [''foundry'', ''documents'', ''BaseScene'', ''ConstructorData''] []),
     mbody = None,
     mdoc = [''Handle repositioning of placed objects when the Scene dimensions change'']\<rparr>"

definition Scene_onUpdate :: member where
  "Scene_onUpdate = \<lparr>mname = ''_onUpdate'', mkind = Method, mmods = [Protected, Override],
     mtparams = [],
     mparams =
       [Param ''changed'' False
          (TInter [TRef [''DeepPartial''] [TIndexed (TRef [''Scene''] []) (TLitStr ''_source'')],
                   TRef [''Record''] [TKw KString, TKw KUnknown]]),
        Param ''options'' False (TRef [''DocumentModificationOptions''] []),
        Param ''userId'' False (TKw KString)],
     mtype = Some (TKw KVoid), mbody = None, mdoc = []\<rparr>"

definition Scene_preDelete :: member where
  "Scene_preDelete = \<lparr>mname = ''_preDelete'', mkind = Method, mmods = [Protected, Override],
     mtparams = [],
     mparams =
       [Param ''options'' False (TRef [''DocumentModificationOptions''] []),
        Param ''user'' False (TRef [''foundry'', ''documents'', ''BaseUser''] [])],
     mtype = Some (TRef [''Promise''] [TKw KVoid]), mbody = None, mdoc = []\<rparr>"

definition Scene_onDelete :: member where
  "Scene_onDelete = \<lparr>mname = ''_onDelete'', mkind = Method, mmods = [Protected, Override],
     mtparams = [],
     mparams =
       [Param ''options'' False (TRef [''DocumentModificationOptions''] []),
        Param ''userId'' False (TKw KString)],
     mtype = Some (TKw KVoid), mbody = None, mdoc = []\<rparr>"

definition Scene_onActivate :: member where
  "Scene_onActivate = \<lparr>mname = ''_onActivate'', mkind = Method, mmods = [Protected],
     mtparams = [],
     mparams = [Param ''active'' False (TKw KBoolean)],
     mtype = Some (TUnion [TRef [''ReturnType''] [TIndexed TThis (TLitStr ''view'')],
                           TRef [''ReturnType''] [TIndexed (TRef [''Canvas''] []) (TLitStr ''draw'')]]),
     mbody = None,
     mdoc = [''Handle Scene activation workflow if the active state is changed to true'',
             ''@param active - Is the scene now active?'']\<rparr>"

definition Scene_preCreateDescendantDocuments :: member where
  "Scene_preCreateDescendantDocuments = \<lparr>mname = ''_preCreateDescendantDocuments'',
     mkind = Method, mmods = [Override], mtparams = [],
     mparams =
       [Param ''parent'' False (TRef [''ClientDocument''] []),
        Param ''collection'' False (TKw KString),
        Param ''data'' False (TArray (TKw KUnknown)),
        Param ''options'' False (TRef [''DocumentModificationOptions''] []),
        Param ''userId'' False (TKw KString)],
     mtype = Some (TKw KVoid), mbody = None, mdoc = []\<rparr>"

definition Scene_preUpdateDescendantDocuments :: member where
  "Scene_preUpdateDescendantDocuments = \<lparr>mname = ''_preUpdateDescendantDocuments'',
     mkind = Method, mmods = [Override], mtparams = [],
     mparams =
       [Param ''parent'' False (TRef [''ClientDocument''] []),
        Param ''collection'' False (TKw KString),
        Param ''changes'' False (TArray (TKw KUnknown)),
        Param ''options'' False (TRef [''DocumentModificationOptions''] []),
        Param ''userId'' False (TKw KString)],
     mtype = Some (TKw KVoid), mbody = None, mdoc = []\<rparr>"

definition Scene_preDeleteDescendantDocuments :: member where
  "Scene_preDeleteDescendantDocuments = \<lparr>mname = ''_preDeleteDescendantDocuments'',
     mkind = Method, mmods = [Override], mtparams = [],
     mparams =
       [Param ''parent'' False (TRef [''ClientDocument''] []),
        Param ''collection'' False (TKw KString),
        Param ''ids'' False (TArray (TKw KString)),
        Param ''options'' False (TRef [''DocumentModificationOptions''] []),
        Param ''userId'' False (TKw KString)],
     mtype = Some (TKw KVoid), mbody = None, mdoc = []\<rparr>"

definition Scene_onUpdateDescendantDocuments :: member where
  "Scene_onUpdateDescendantDocuments = \<lparr>mname = ''_onUpdateDescendantDocuments'',
     mkind = Method, mmods = [Override], mtparams = [],
     mparams =
       [Param ''parent'' False (TRef [''ClientDocument''] []),
        Param ''collection'' False (TKw KString),
        Param ''documents'' False (TArray (TRef [''ClientDocument''] [])),
        Param ''changes'' False (TArray (TKw KUnknown)),
        Param ''options'' False (TRef [''DocumentModificationOptions''] []),
        Param ''userId'' False (TKw KString)],
     mtype = Some (TKw KVoid), mbody = None, mdoc = []\<rparr>"

definition Scene_toCompendium :: member where
  "Scene_toCompendium = \<lparr>mname = ''toCompendium'', mkind = Method, mmods = [Override],
     mtparams = [],
     mparams =
       [Param ''pack'' True
          (TUnion
             [TRef [''CompendiumCollection''] [TRef [''CompendiumCollection'', ''Metadata''] []],
              TKw KNull, TKw KUndefined]),
        Param ''options'' True
          (TUnion [TRef [''ClientDocument'', ''CompendiumExportOptions''] [], TKw KUndefined])],
     mtype = Some
       (TInter
          [TRef [''Omit'']
             [TIndexed (TRef [''Scene''] []) (TLitStr ''_source''),
              TUnion [TLitStr ''_id'', TLitStr ''folder'', TLitStr ''permission'']],
           TObj
             [PropSig ''permission'' True
                (TCond (TRef [''Scene''] []) (TObj [MethSig ''toObject'' [] (TInfer ''U'')])
                   (TRef [''U''] []) (TKw KNever))
                []]]),
     mbody = None, mdoc = []\<rparr>"

definition Scene_createThumbnail :: member where
  "Scene_createThumbnail = \<lparr>mname = ''createThumbnail'', mkind = Method, mmods = [],
     mtparams = [],
     mparams =
       [Param ''data'' True (TRef [''InexactPartial''] [TRef [''ThumbnailCreationData''] []])],
     mtype = Some (TRef [''ReturnType'']
                     [TIndexed (TTypeof [''ImageHelper'']) (TLitStr ''createThumbnail'')]),
     mbody = None,
     mdoc = [''Create a 300px by 100px thumbnail image for this scene background'',
             ''@param data - (default: `{}`)'',
             ''@returns The created thumbnail data.'']\<rparr>"

definition Scene :: class_decl where
  "Scene = \<lparr>cname = ''Scene'', cexport = NoExport,
     cextends = Some (ECall (EName [''ClientDocumentMixin''])
                        [EName [''foundry'', ''documents'', ''BaseScene'']]),
     cmembers =
       [Scene_viewPosition, Scene_view_flag, Scene_dimensions, Scene_thumbnail, Scene_isView,
        Scene_activate, Scene_view, Scene_clone, Scene_reset, Scene_prepareBaseData,
        Scene_getDimensions, Scene_onClickDocumentLink, Scene_preCreate, Scene_onCreate,
        Scene_preUpdate, Scene_repositionObject, Scene_onUpdate, Scene_preDelete,
        Scene_onDelete, Scene_onActivate, Scene_preCreateDescendantDocuments,
        Scene_preUpdateDescendantDocuments, Scene_preDeleteDescendantDocuments,
        Scene_onUpdateDescendantDocuments, Scene_toCompendium, Scene_createThumbnail],
     cdoc = [''The client-side Scene document which extends the common BaseScene model.'',
             [],
             ''@see {@link Scenes}            The world-level collection of Scene documents'',
             ''@see {@link SceneConfig}       The Scene configuration application'',
             []]\<rparr>"

definition SceneDimensions :: decl where
  "SceneDimensions = DInterface ''SceneDimensions'' []
     [PropSig ''width'' False (TKw KNumber) [''The width of the canvas.''],
      PropSig ''height'' False (TKw KNumber) [''The height of the canvas.''],
      PropSig ''size'' False (TKw KNumber) [''The grid size.''],
      PropSig ''rect'' False (TRef [''Rectangle''] []) [''The canvas rectangle.''],
      PropSig ''sceneX'' False (TKw KNumber)
        [''The X coordinate of the scene rectangle within the larger canvas.''],
      PropSig ''sceneY'' False (TKw KNumber)
        [''The Y coordinate of the scene rectangle within the larger canvas.''],
      PropSig ''sceneWidth'' False (TKw KNumber) [''The width of the scene.''],
      PropSig ''sceneHeight'' False (TKw KNumber) [''The height of the scene.''],
      PropSig ''sceneRect'' False (TRef [''Rectangle''] []) [''The scene rectangle.''],
      PropSig ''distance'' False (TKw KNumber)
        [''The number of distance units in a single grid space.''],
      PropSig ''ratio'' False (TKw KNumber) [''The aspect ratio of the scene rectangle.''],
      PropSig ''maxR'' False (TKw KNumber)
        [''The length of the longest line that can be drawn on the canvas.'']]"

definition ThumbnailCreationData :: decl where
  \<open>ThumbnailCreationData = DInterface ''ThumbnailCreationData''
     [[''ImageHelper'', ''TextureToImageOptions'']]
     [PropSig ''img'' False (TKw KString)
        [''A background image to use for thumbnail creation, otherwise the current scene'',
         ''background is used.''],
      PropSig ''width'' False (TKw KNumber)
        [''The desired thumbnail width. Default is 300px'', ''@defaultValue `300`''],
      PropSig ''height'' False (TKw KNumber)
        [''The desired thumbnail height. Default is 100px;'', ''@defaultValue `100`''],
      PropSig ''format'' False
        (TUnion [TLitStr ''image/png'', TLitStr ''image/jpg'', TLitStr ''image/webp''])
        [''Which image format should be used? image/png, image/jpg, or image/webp'',
         ''@defaultValue `"image/webp"`''],
      PropSig ''quality'' False (TKw KNumber)
        [''What compression quality should be used for jpeg or webp, between 0 and 1'',
         ''@defaultValue `0.8`'']]\<close>

definition scene_file :: source_file where
  "scene_file = \<lparr>fpath = ''src/foundry/client/data/documents/scene.d.mts'',
     fimports =
       [ImportTypeNamed [''DeepPartial'', ''InexactPartial''] ''../../../../types/utils.d.mts'',
        ImportTypeNamed [''DocumentModificationOptions'']
          ''../../../common/abstract/document.d.mts''],
     fdecls = [DGlobal [DClass Scene, SceneDimensions], ThumbnailCreationData]\<rparr>"

section \<open>The package schema file\<close>

text \<open>
  The second source file (\<^verbatim>\<open>unnamed/part_000\<close>): the namespace \<open>BasePackage\<close> of schema
  type aliases, six schema-field classes and the default-exported class
  \<open>BasePackage\<close>.
\<close>

definition PackageCompatibilitySchema :: decl where
  "PackageCompatibilitySchema = DTypeAlias ''PackageCompatibilitySchema'' []
     (TObj [PropSig ''minimum'' False (TRef [''fields'', ''StringField''] []) [],
            PropSig ''verified'' False (TRef [''fields'', ''StringField''] []) [],
            PropSig ''maximum'' False (TRef [''fields'', ''StringField''] []) []])"

definition PackageRelationshipsSchema :: decl where
  "PackageRelationshipsSchema = DTypeAlias ''PackageRelationshipsSchema'' []
     (TObj [PropSig ''systems'' False (TRef [''fields'', ''SetField''] []) [],
            PropSig ''requires'' False (TRef [''fields'', ''SetField''] []) [],
            PropSig ''recommends'' False (TRef [''fields'', ''SetField''] []) [],
            PropSig ''conflicts'' False (TRef [''fields'', ''SetField''] []) [],
            PropSig ''flags'' False (TRef [''fields'', ''ObjectField''] []) []])"

definition RelatedPackageSchema :: decl where
  "RelatedPackageSchema = DTypeAlias ''RelatedPackageSchema'' []
     (TObj [PropSig ''id'' False (TRef [''fields'', ''StringField''] []) [],
            PropSig ''type'' False (TRef [''fields'', ''StringField''] []) [],
            PropSig ''manifest'' False (TRef [''fields'', ''StringField''] []) [],
            PropSig ''compatibility'' False (TRef [''PackageCompatibility''] []) [],
            PropSig ''reason'' False (TRef [''fields'', ''StringField''] []) []])"

definition RecursiveDepth :: decl where
  "RecursiveDepth = DTypeAlias ''RecursiveDepth'' []
     (TTuple [TKw KNever, TLitNum 0, TLitNum 1, TLitNum 2, TLitNum 3])"

text \<open>
  The source writes \<open>| {...} | Depth extends 0 ? {} : { folders: ... }\<close>. A conditional
  type binds weaker than a union, so the check type is the whole union.
\<close>

definition PackageCompendiumFolderSchema :: decl where
  "PackageCompendiumFolderSchema = DTypeAlias ''PackageCompendiumFolderSchema''
     [TParam ''Depth'' (Some (TKw KNumber)) None]
     (TCond
        (TUnion
           [TObj [PropSig ''name'' False (TRef [''fields'', ''StringField''] []) [],
                  PropSig ''sorting'' False (TRef [''fields'', ''StringField''] []) [],
                  PropSig ''color'' False (TRef [''fields'', ''ColorField''] []) [],
                  PropSig ''packs'' False (TRef [''fields'', ''SetField''] []) []],
            TRef [''Depth''] []])
        (TLitNum 0)
        (TObj [])
        (TObj [PropSig ''folders'' False (TRef [''fields'', ''SetField''] []) []]))"

definition Schema :: decl where
  "Schema = DTypeAlias ''Schema'' []
     (TObj [PropSig ''id'' False (TRef [''fields'', ''StringField''] []) [],
            PropSig ''title'' False (TRef [''fields'', ''StringField''] []) [],
            PropSig ''description'' False (TRef [''fields'', ''StringField''] []) [],
            PropSig ''authors'' False (TRef [''fields'', ''SetField''] []) [],
            PropSig ''url'' False (TRef [''fields'', ''StringField''] []) [],
            PropSig ''license'' False (TRef [''fields'', ''StringField''] []) [],
            PropSig ''readme'' False (TRef [''fields'', ''StringField''] []) [],
            PropSig ''bugs'' False (TRef [''fields'', ''StringField''] []) [],
            PropSig ''changelog'' False (TRef [''fields'', ''StringField''] []) [],
            PropSig ''flags'' False (TRef [''fields'', ''ObjectField''] []) [],
            PropSig ''media'' False (TRef [''fields'', ''SetField''] []) [],
            PropSig ''version'' False (TRef [''fields'', ''StringField''] []) [],
            PropSig ''compatibility'' False (TRef [''PackageCompatibility''] []) [],
            PropSig ''scripts'' False (TRef [''fields'', ''SetField''] []) [],
            PropSig ''esmodules'' False (TRef [''fields'', ''SetField''] []) [],
            PropSig ''styles'' False (TRef [''fields'', ''SetField''] []) [],
            PropSig ''languages'' False (TRef [''fields'', ''SetField''] []) [],
            PropSig ''packs'' False (TRef [''PackageCompendiumPacks''] []) [],
            PropSig ''packFolders'' False (TRef [''fields'', ''SetField''] []) [],
            PropSig ''relationships'' False (TRef [''PackageRelationships''] []) [],
            PropSig ''socket'' False (TRef [''fields'', ''BooleanField''] []) [],
            PropSig ''manifest'' False (TRef [''fields'', ''StringField''] []) [],
            PropSig ''download'' False (TRef [''fields'', ''StringField''] []) [],
            PropSig ''protected'' False (TRef [''fields'', ''BooleanField''] []) [],
            PropSig ''exclusive'' False (TRef [''fields'', ''BooleanField''] []) [],
            PropSig ''persistentStorage'' False (TRef [''fields'', ''BooleanField''] []) []])"

definition PackageManifestData :: decl where
  "PackageManifestData = DTypeAlias ''PackageManifestData'' []
     (TObj [PropSig ''availability'' False (TRef [''CONST'', ''PACKAGE_AVAILABILITY_CODES''] []) [],
            PropSig ''locked'' False (TKw KBoolean) [],
            PropSig ''exclusive'' False (TKw KBoolean) [],
            PropSig ''owned'' False (TKw KBoolean) [],
            PropSig ''tags'' False (TArray (TKw KString)) [],
            PropSig ''hasStorage'' False (TKw KBoolean) []])"

definition BasePackage_namespace :: decl where
  "BasePackage_namespace = DNamespace ''BasePackage''
     [PackageCompatibilitySchema, PackageRelationshipsSchema, RelatedPackageSchema,
      RecursiveDepth, PackageCompendiumFolderSchema, Schema, PackageManifestData]"

definition PackageCompatibility :: class_decl where
  "PackageCompatibility = \<lparr>cname = ''PackageCompatibility'', cexport = Export,
     cextends = Some (EInst (EName [''fields'', ''SchemaField''])
                        [TRef [''BasePackage'', ''PackageCompatibilitySchema''] []]),
     cmembers = [],
     cdoc = [''A custom SchemaField for defining package compatibility versions.'',
             ''@property {string} minimum     The Package will not function before this version'',
             ''@property {string} verified    Verified compatible up to this version'',
             ''@property {string} maximum     The Package will not function after this version'']\<rparr>"

definition PackageRelationships :: class_decl where
  "PackageRelationships = \<lparr>cname = ''PackageRelationships'', cexport = Export,
     cextends = Some (EInst (EName [''fields'', ''SchemaField''])
                        [TRef [''BasePackage'', ''PackageRelationshipsSchema''] []]),
     cmembers = [],
     cdoc = [''A custom SchemaField for defining package relationships.'',
             ''@property {RelatedPackage[]} systems     Systems that this Package supports'',
             ''@property {RelatedPackage[]} requires    Packages that are required for base functionality'',
             ''@property {RelatedPackage[]} recommends  Packages that are recommended for optimal functionality'']\<rparr>"

definition RelatedPackage :: class_decl where
  "RelatedPackage = \<lparr>cname = ''RelatedPackage'', cexport = Export,
     cextends = Some (EInst (EName [''fields'', ''SchemaField''])
                        [TRef [''BasePackage'', ''RelatedPackageSchema''] []]),
     cmembers = [],
     cdoc = [''A custom SchemaField for defining a related Package.'',
             ''It may be required to be a specific type of package, by passing the packageType option to the constructor.'']\<rparr>"

definition PackageCompendiumFolder :: class_decl where
  "PackageCompendiumFolder = \<lparr>cname = ''PackageCompendiumFolder'', cexport = Export,
     cextends = Some (EInst (EName [''fields'', ''SchemaField''])
                        [TRef [''BasePackage'', ''PackageCompendiumFolderSchema''] [TLitNum 4]]),
     cmembers = [],
     cdoc = [''A custom SchemaField for defining the folder structure of the included compendium packs.'']\<rparr>"

definition CompendiumOwnershipField :: class_decl where
  "CompendiumOwnershipField = \<lparr>cname = ''CompendiumOwnershipField'', cexport = Export,
     cextends = Some (EName [''fields'', ''ObjectField'']),
     cmembers = [],
     cdoc = [''A special ObjectField which captures a mapping of USER_ROLES to DOCUMENT_OWNERSHIP_LEVELS.'']\<rparr>"

definition PackageCompendiumPacks :: class_decl where
  "PackageCompendiumPacks = \<lparr>cname = ''PackageCompendiumPacks'', cexport = Export,
     cextends = Some (EName [''fields'', ''SetField'']),
     cmembers = [],
     cdoc = [''A special SetField which provides additional validation and initialization behavior specific to compendium packs.'']\<rparr>"

definition BasePackage_availability :: member where
  "BasePackage_availability = \<lparr>mname = ''availability'', mkind = Property, mmods = [],
     mtparams = [], mparams = [],
     mtype = Some (TRef [''CONST'', ''PACKAGE_AVAILABILITY_CODES''] []), mbody = None,
     mdoc = [''An availability code in PACKAGE_AVAILABILITY_CODES which defines whether this package can be used.'']\<rparr>"

definition BasePackage_locked :: member where
  "BasePackage_locked = \<lparr>mname = ''locked'', mkind = Property, mmods = [],
     mtparams = [], mparams = [], mtype = Some (TKw KBoolean), mbody = None,
     mdoc = [''A flag which tracks whether this package is currently locked.'',
             ''@defaultValue `false`'']\<rparr>"

definition BasePackage_exclusive :: member where
  "BasePackage_exclusive = \<lparr>mname = ''exclusive'', mkind = Property, mmods = [],
     mtparams = [], mparams = [], mtype = Some (TKw KBoolean), mbody = None,
     mdoc = [''A flag which tracks whether this package is a free Exclusive pack'',
             ''@defaultValue `false`'']\<rparr>"

definition BasePackage_owned :: member where
  "BasePackage_owned = \<lparr>mname = ''owned'', mkind = Property, mmods = [],
     mtparams = [], mparams = [], mtype = Some (TKw KBoolean), mbody = None,
     mdoc = [''A flag which tracks whether this package is owned, if it is protected.'',
             ''@defaultValue `false`'']\<rparr>"

definition BasePackage_tags :: member where
  "BasePackage_tags = \<lparr>mname = ''tags'', mkind = Property, mmods = [],
     mtparams = [], mparams = [], mtype = Some (TArray (TKw KString)), mbody = None,
     mdoc = [''A set of Tags that indicate what kind of Package this is, provided by the Website'',
             ''@defaultValue `[]`'']\<rparr>"

definition BasePackage_static_type :: member where
  "BasePackage_static_type = \<lparr>mname = ''type'', mkind = Property, mmods = [Static],
     mtparams = [], mparams = [],
     mtype = Some (TRef [''CONST'', ''PACKAGE_TYPES''] []), mbody = None,
     mdoc = [''Define the package type in CONST.PACKAGE_TYPES that this class represents.'',
             ''Each BasePackage subclass must define this attribute.'',
             ''@virtual'']\<rparr>"

definition BasePackage_type :: member where
  "BasePackage_type = \<lparr>mname = ''type'', mkind = Getter, mmods = [],
     mtparams = [], mparams = [],
     mtype = Some (TRef [''CONST'', ''PACKAGE_TYPES''] []), mbody = None,
     mdoc = [''The type of this package instance. A value in CONST.PACKAGE_TYPES.'']\<rparr>"

definition BasePackage_name :: member where
  \<open>BasePackage_name = \<lparr>mname = ''name'', mkind = Getter, mmods = [],
     mtparams = [], mparams = [],
     mtype = Some (TIndexed TThis (TLitStr ''id'')), mbody = None,
     mdoc = [''The canonical identifier for this package'',
             ''@deprecated "You are accessing BasePackage#name which is now deprecated in favor of id."'']\<rparr>\<close>

definition BasePackage_unavailable :: member where
  "BasePackage_unavailable = \<lparr>mname = ''unavailable'', mkind = Getter, mmods = [],
     mtparams = [], mparams = [], mtype = Some (TKw KBoolean), mbody = None,
     mdoc = [''A flag which defines whether this package is unavailable to be used.'']\<rparr>"

definition BasePackage_isIncompatibleWithCoreVersion :: member where
  "BasePackage_isIncompatibleWithCoreVersion = \<lparr>mname = ''isIncompatibleWithCoreVersion'',
     mkind = Method, mmods = [Static], mtparams = [],
     mparams = [Param ''availability'' False (TRef [''CONST'', ''PACKAGE_AVAILABILITY_CODES''] [])],
     mtype = Some (TKw KBoolean), mbody = None,
     mdoc = [''Test if a given availability is incompatible with the core version.'',
             ''@param availability - The availability value to test.'']\<rparr>"

definition BasePackage_collection :: member where
  "BasePackage_collection = \<lparr>mname = ''collection'', mkind = Getter, mmods = [Static],
     mtparams = [], mparams = [],
     mtype = Some (TUnion [TLitStr ''worlds'', TLitStr ''systems'', TLitStr ''modules'']),
     mbody = None,
     mdoc = [''The named collection to which this package type belongs'']\<rparr>"

definition BasePackage_defineSchema :: member where
  "BasePackage_defineSchema = \<lparr>mname = ''defineSchema'', mkind = Method, mmods = [Static],
     mtparams = [], mparams = [],
     mtype = Some (TRef [''BasePackage'', ''Schema''] []), mbody = None, mdoc = []\<rparr>"

definition BasePackage_testAvailability :: member where
  "BasePackage_testAvailability = \<lparr>mname = ''testAvailability'', mkind = Method,
     mmods = [Static], mtparams = [],
     mparams =
       [Param ''data'' False (TRef [''Partial''] [TRef [''BasePackage'', ''PackageManifestData''] []]),
        Param ''options'' False
          (TRef [''InexactPartial'']
             [TObj [PropSig ''release'' False (TRef [''ReleaseData''] [])
                      [''A specific software release for which to test availability.'',
                       ''Tests against the current release by default.'']]])],
     mtype = Some (TRef [''CONST'', ''PACKAGE_AVAILABILITY_CODES''] []), mbody = None,
     mdoc = []\<rparr>"

definition BasePackage_testRequiredDependencies :: member where
  "BasePackage_testRequiredDependencies = \<lparr>mname = ''_testRequiredDependencies'',
     mkind = Method, mmods = [], mtparams = [],
     mparams = [Param ''modulesCollection'' False (TRef [''Collection''] [TRef [''Module''] []])],
     mtype = Some (TRef [''Promise''] [TKw KBoolean]), mbody = None,
     mdoc = [''Test that the dependencies of a package are satisfied as compatible.'',
             ''This method assumes that all packages in modulesCollection have already had their own availability tested.'',
             ''@param modulesCollection - A collection which defines the set of available modules'',
             ''@returns Are all required dependencies satisfied?'']\<rparr>"

definition BasePackage_testSupportedSystems :: member where
  "BasePackage_testSupportedSystems = \<lparr>mname = ''_testSupportedSystems'',
     mkind = Method, mmods = [], mtparams = [],
     mparams = [Param ''systemCollection'' False (TRef [''Collection''] [TRef [''System''] []])],
     mtype = Some (TRef [''Promise''] [TKw KBoolean]), mbody = None,
     mdoc = [''Test compatibility of a package's supported systems.'',
             ''@param systemCollection - A collection which defines the set of available systems.'',
             ''@returns True if all supported systems which are currently installed'',
             ''         are compatible or if the package has no supported systems.'',
             ''         Returns false otherwise, or if no supported systems are installed.'']\<rparr>"

definition BasePackage_testDependencyCompatibility :: member where
  "BasePackage_testDependencyCompatibility = \<lparr>mname = ''testDependencyCompatibility'',
     mkind = Method, mmods = [Static], mtparams = [],
     mparams =
       [Param ''compatibility'' False (TRef [''PackageCompatibility''] []),
        Param ''dependency'' False (TRef [''BasePackage''] [])],
     mtype = Some (TKw KBoolean), mbody = None,
     mdoc = [''Determine if a dependency is within the given compatibility range.'',
             ''@param compatibility - The compatibility range declared for the dependency, if any'',
             ''@param dependency    - The known dependency package'',
             ''@returns Is the dependency compatible with the required range?'']\<rparr>"

definition BasePackage_cleanData :: member where
  "BasePackage_cleanData = \<lparr>mname = ''cleanData'', mkind = Method, mmods = [Static],
     mtparams = [],
     mparams =
       [Param ''source'' True (TUnion [TKw KObject, TKw KUndefined]),
        Param ''options'' True
          (TUnion [TRef [''fields'', ''DataField'', ''CleanOptions''] [], TKw KUndefined])],
     mtype = Some (TKw KObject), mbody = None, mdoc = []\<rparr>"

definition BasePackage_validateId :: member where
  "BasePackage_validateId = \<lparr>mname = ''validateId'', mkind = Method, mmods = [Static],
     mtparams = [],
     mparams = [Param ''id'' False (TKw KString)],
     mtype = Some (TKw KVoid), mbody = None,
     mdoc = [''Validate that a Package ID is allowed.'',
             ''@param id - The candidate ID'',
             ''@throws An error if the candidate ID is invalid'']\<rparr>"

definition BasePackage_logWarning :: member where
  "BasePackage_logWarning = \<lparr>mname = ''_logWarning'', mkind = Method,
     mmods = [Protected, Static], mtparams = [],
     mparams =
       [Param ''packageId'' False (TKw KString),
        Param ''message'' False (TKw KString),
        Param ''options'' False
          (TRef [''InexactPartial'']
             [TUnion
                [TObj [PropSig ''installed'' False (TKw KUnknown) [''Is the package installed?'']],
                 TRef [''LogCompatibilityWarningOptions''] []]])],
     mtype = None, mbody = None,
     mdoc = ['' A wrapper around the default compatibility warning logger which handles some package-specific interactions.'',
             ''@param packageId - The package ID being logged'',
             ''@param message   - The warning or error being logged'',
             ''@param options   - Logging options passed to foundry.utils.logCompatibilityWarning'']\<rparr>"

definition BasePackage_migrateData :: member where
  "BasePackage_migrateData = \<lparr>mname = ''migrateData'', mkind = Method, mmods = [Static],
     mtparams = [],
     mparams =
       [Param ''data'' False (TKw KObject),
        Param ''logOptions'' False
          (TRef [''InexactPartial''] [TObj [PropSig ''installed'' False (TKw KBoolean) []]])],
     mtype = Some (TKw KObject), mbody = None, mdoc = []\<rparr>"

text \<open>
  The six migration helpers share one signature:
  \<open>(data: object, logOptions: Parameters<typeof BasePackage._logWarning>[2]): void\<close>.
\<close>

definition migration_params :: "param list" where
  "migration_params =
     [Param ''data'' False (TKw KObject),
      Param ''logOptions'' False
        (TIndexed (TRef [''Parameters''] [TTypeof [''BasePackage'', ''_logWarning'']])
           (TLitNum 2))]"

definition BasePackage_migrateNameToId :: member where
  "BasePackage_migrateNameToId = \<lparr>mname = ''_migrateNameToId'', mkind = Method,
     mmods = [Protected, Static], mtparams = [], mparams = migration_params,
     mtype = Some (TKw KVoid), mbody = None, mdoc = []\<rparr>"

definition BasePackage_migrateDependenciesNameToId :: member where
  "BasePackage_migrateDependenciesNameToId = \<lparr>mname = ''_migrateDependenciesNameToId'',
     mkind = Method, mmods = [Protected, Static], mtparams = [], mparams = migration_params,
     mtype = Some (TKw KVoid), mbody = None, mdoc = []\<rparr>"

definition BasePackage_migrateToRelationships :: member where
  "BasePackage_migrateToRelationships = \<lparr>mname = ''_migrateToRelationships'',
     mkind = Method, mmods = [Protected, Static], mtparams = [], mparams = migration_params,
     mtype = Some (TKw KVoid), mbody = None, mdoc = []\<rparr>"

definition BasePackage_migrateCompatibility :: member where
  "BasePackage_migrateCompatibility = \<lparr>mname = ''_migrateCompatibility'',
     mkind = Method, mmods = [Protected, Static], mtparams = [], mparams = migration_params,
     mtype = Some (TKw KVoid), mbody = None, mdoc = []\<rparr>"

definition BasePackage_migrateMediaURL :: member where
  "BasePackage_migrateMediaURL = \<lparr>mname = ''_migrateMediaURL'',
     mkind = Method, mmods = [Protected, Static], mtparams = [], mparams = migration_params,
     mtype = Some (TKw KVoid), mbody = None, mdoc = []\<rparr>"

definition BasePackage_migrateOwnership :: member where
  "BasePackage_migrateOwnership = \<lparr>mname = ''_migrateOwnership'',
     mkind = Method, mmods = [Protected, Static], mtparams = [], mparams = migration_params,
     mtype = Some (TKw KVoid), mbody = None, mdoc = []\<rparr>"

definition BasePackage_fromRemoteManifest :: member where
  "BasePackage_fromRemoteManifest = \<lparr>mname = ''fromRemoteManifest'', mkind = Method,
     mmods = [Static], mtparams = [],
     mparams =
       [Param ''manifestUrl'' False (TKw KString),
        Param ''options'' False
          (TObj [PropSig ''strict'' False (TKw KBoolean)
                   [''Whether to construct the remote package strictly'',
                    ''@defaultValue `true`'']])],
     mtype = Some (TRef [''Promise''] [TKw KNever]), mbody = None,
     mdoc = [''Retrieve the latest Package manifest from a provided remote location.'',
             ''@param manifestUrl - A remote manifest URL to load'',
             ''@param options     - Additional options which affect package construction'',
             ''@returns A Promise which resolves to a constructed ServerPackage instance'',
             ''@throws An error if the retrieved manifest data is invalid'']\<rparr>"

definition BasePackage :: class_decl where
  "BasePackage = \<lparr>cname = ''BasePackage'', cexport = ExportDefault,
     cextends = Some (EInst (EName [''DataModel''])
                        [TRef [''fields'', ''SchemaField''] [TRef [''BasePackage'', ''Schema''] []],
                         TKw KNull]),
     cmembers =
       [BasePackage_availability, BasePackage_locked, BasePackage_exclusive, BasePackage_owned,
        BasePackage_tags, BasePackage_static_type, BasePackage_type, BasePackage_name,
        BasePackage_unavailable, BasePackage_isIncompatibleWithCoreVersion,
        BasePackage_collection, BasePackage_defineSchema, BasePackage_testAvailability,
        BasePackage_testRequiredDependencies, BasePackage_testSupportedSystems,
        BasePackage_testDependencyCompatibility, BasePackage_cleanData, BasePackage_validateId,
        BasePackage_logWarning, BasePackage_migrateData, BasePackage_migrateNameToId,
        BasePackage_migrateDependenciesNameToId, BasePackage_migrateToRelationships,
        BasePackage_migrateCompatibility, BasePackage_migrateMediaURL,
        BasePackage_migrateOwnership, BasePackage_fromRemoteManifest],
     cdoc = [''The data schema used to define a Package manifest.'',
             ''Specific types of packages extend this schema with additional fields.'']\<rparr>"

definition package_file :: source_file where
  "package_file = \<lparr>fpath = ''unnamed/part_000'',
     fimports =
       [ImportTypeNamed [''InexactPartial''] ''../../../types/utils.d.mts'',
        ImportTypeDefault ''DataModel'' ''../abstract/data.mjs'',
        ImportTypeNamed [''ReleaseData''] ''../config.mjs/releaseData.d.mts'',
        ImportStar ''fields'' ''../data/fields.mjs'',
        ImportTypeNamed [''CONST''] ''../module.d.mts'',
        ImportNamed [''LogCompatibilityWarningOptions''] ''../utils/logging.d.mts''],
     fdecls =
       [BasePackage_namespace, DClass PackageCompatibility, DClass PackageRelationships,
        DClass RelatedPackage, DClass PackageCompendiumFolder, DClass CompendiumOwnershipField,
        DClass PackageCompendiumPacks, DClass BasePackage]\<rparr>"

definition repository :: "source_file list" where
  "repository = [scene_file, package_file]"

section \<open>Reading the declarations\<close>

subsection \<open>Classes, names and heritage\<close>

fun classes_of :: "decl \<Rightarrow> class_decl list" where
  "classes_of (DClass c) = [c]"
| "classes_of (DInterface n es ms) = []"
| "classes_of (DTypeAlias n ps t) = []"
| "classes_of (DNamespace n ds) = concat (map classes_of ds)"
| "classes_of (DGlobal ds) = concat (map classes_of ds)"

definition file_classes :: "source_file \<Rightarrow> class_decl list" where
  "file_classes f = concat (map classes_of (fdecls f))"

definition all_classes :: "class_decl list" where
  "all_classes = concat (map file_classes repository)"

text \<open>
  The qualified names a declaration introduces. A namespace introduces its own name and,
  under it, the names of its members; a \<open>declare global\<close> block introduces the names of
  its members unqualified.
\<close>

fun declared_names :: "decl \<Rightarrow> qname list" where
  "declared_names (DClass c) = [[cname c]]"
| "declared_names (DInterface n es ms) = [[n]]"
| "declared_names (DTypeAlias n ps t) = [[n]]"
| "declared_names (DNamespace n ds) = [n] # map (\<lambda>q. n # q) (concat (map declared_names ds))"
| "declared_names (DGlobal ds) = concat (map declared_names ds)"

definition file_declared :: "source_file \<Rightarrow> qname list" where
  "file_declared f = concat (map declared_names (fdecls f))"

definition repository_declared :: "qname list" where
  "repository_declared = concat (map file_declared repository)"

fun imported_names :: "import_decl \<Rightarrow> string list" where
  "imported_names (ImportTypeNamed ns src) = ns"
| "imported_names (ImportTypeDefault n src) = [n]"
| "imported_names (ImportStar n src) = [n]"
| "imported_names (ImportNamed ns src) = ns"

definition file_imported :: "source_file \<Rightarrow> string list" where
  "file_imported f = concat (map imported_names (fimports f))"

text \<open>The names a heritage expression refers to (its type arguments apart).\<close>

fun expr_names :: "expr \<Rightarrow> qname list" where
  "expr_names (EName q) = [q]"
| "expr_names (ECall f args) = expr_names f @ concat (map expr_names args)"
| "expr_names (EInst e ts) = expr_names e"

text \<open>
  A name is defined in the repository when some declaration of either file introduces
  its first identifier: \<open>fields.SetField\<close> would be defined here if \<open>fields\<close> were.
\<close>

definition defined_here :: "qname \<Rightarrow> bool" where
  "defined_here q = (take 1 q \<in> set (map (take 1) repository_declared))"

definition base_names :: "class_decl \<Rightarrow> qname list" where
  "base_names c = (case cextends c of None \<Rightarrow> [] | Some e \<Rightarrow> expr_names e)"

subsection \<open>Members\<close>

definition instance_member :: "class_decl \<Rightarrow> string \<Rightarrow> member option" where
  "instance_member c n = find (\<lambda>m. mname m = n \<and> Static \<notin> set (mmods m)) (cmembers c)"

definition static_member :: "class_decl \<Rightarrow> string \<Rightarrow> member option" where
  "static_member c n = find (\<lambda>m. mname m = n \<and> Static \<in> set (mmods m)) (cmembers c)"

text \<open>
  The type a member has when it is read as a property: the annotation of a property or
  getter, a function type for a method without type parameters.
\<close>

definition member_type :: "member \<Rightarrow> ty option" where
  "member_type m =
     (case mkind m of
        Method \<Rightarrow> (if mtparams m = [] then map_option (TFun (mparams m)) (mtype m) else None)
      | Property \<Rightarrow> mtype m
      | Getter \<Rightarrow> mtype m)"

text \<open>
  \<open>this[k]\<close> inside a class: the class's own instance member \<open>k\<close> when it declares one,
  otherwise whatever the base provides. Every base is outside the repository, so the
  typing \<open>inh\<close> of inherited members is a parameter.
\<close>

definition this_index :: "(string \<Rightarrow> ty option) \<Rightarrow> class_decl \<Rightarrow> string \<Rightarrow> ty option" where
  "this_index inh c k =
     (case instance_member c k of Some m \<Rightarrow> member_type m | None \<Rightarrow> inh k)"

text \<open>
  Resolution of the type operators the two files apply to \<open>this\<close>: indexed access and
  the utility type \<open>ReturnType\<close>. Any other type is left as written.
\<close>

fun resolve :: "(string \<Rightarrow> ty option) \<Rightarrow> class_decl \<Rightarrow> ty \<Rightarrow> ty option" where
  "resolve inh c (TIndexed TThis (TLitStr k)) = this_index inh c k"
| "resolve inh c (TRef q [a]) =
     (if q = [''ReturnType'']
      then (case resolve inh c a of Some (TFun ps r) \<Rightarrow> Some r | _ \<Rightarrow> None)
      else Some (TRef q [a]))"
| "resolve inh c t = Some t"

text \<open>
  The type an accessor \<open>k\<close> (a property or getter) of the class yields: the resolved
  annotation of the class's own member, or the base's typing when the class declares
  none.
\<close>

definition accessor_type :: "(string \<Rightarrow> ty option) \<Rightarrow> class_decl \<Rightarrow> string \<Rightarrow> ty option" where
  "accessor_type inh c k =
     (case instance_member c k of
        None \<Rightarrow> inh k
      | Some m \<Rightarrow> (case member_type m of None \<Rightarrow> None | Some t \<Rightarrow> resolve inh c t))"

definition protected_overrides :: "class_decl \<Rightarrow> member list" where
  "protected_overrides c =
     filter (\<lambda>m. Protected \<in> set (mmods m) \<and> Override \<in> set (mmods m)) (cmembers c)"

fun param_name :: "param \<Rightarrow> string" where
  "param_name (Param n opt t) = n"

fun param_optional :: "param \<Rightarrow> bool" where
  "param_optional (Param n opt t) = opt"

fun param_type :: "param \<Rightarrow> ty" where
  "param_type (Param n opt t) = t"

subsection \<open>Named types of a file\<close>

fun decl_name :: "decl \<Rightarrow> string option" where
  "decl_name (DClass c) = Some (cname c)"
| "decl_name (DInterface n es ms) = Some n"
| "decl_name (DTypeAlias n ps t) = Some n"
| "decl_name (DNamespace n ds) = Some n"
| "decl_name (DGlobal ds) = None"

fun is_namespace :: "decl \<Rightarrow> bool" where
  "is_namespace (DNamespace n ds) = True"
| "is_namespace d = False"

fun namespace_members :: "string \<Rightarrow> decl \<Rightarrow> decl list" where
  "namespace_members n (DNamespace n' ds) = (if n = n' then ds else [])"
| "namespace_members n d = []"

fun unwrap_global :: "decl \<Rightarrow> decl list" where
  "unwrap_global (DGlobal ds) = ds"
| "unwrap_global d = [d]"

definition scope :: "source_file \<Rightarrow> decl list" where
  "scope f = concat (map unwrap_global (fdecls f))"

fun lookup_type :: "decl list \<Rightarrow> qname \<Rightarrow> decl option" where
  "lookup_type ds [] = None"
| "lookup_type ds [n] = find (\<lambda>d. decl_name d = Some n \<and> \<not> is_namespace d) ds"
| "lookup_type ds (n # q) = lookup_type (concat (map (namespace_members n) ds)) q"

fun sig_name :: "sig \<Rightarrow> string" where
  "sig_name (PropSig n opt t d) = n"
| "sig_name (MethSig n ps r) = n"

text \<open>
  The members written in an options-bag type: an object type literal, possibly under
  \<open>InexactPartial<...>\<close> or \<open>Partial<...>\<close> and possibly intersected with named
  types (whose members are declared elsewhere and contribute nothing here).
\<close>

fun object_members :: "ty \<Rightarrow> sig list" where
  "object_members (TObj ms) = ms"
| "object_members (TInter ts) = concat (map object_members ts)"
| "object_members (TRef q [t]) =
     (if q = [''InexactPartial''] \<or> q = [''Partial''] then object_members t else [])"
| "object_members t = []"

text \<open>The option \<open>k\<close> of the parameter \<open>p\<close> of a member, as written.\<close>

definition option_sig :: "member \<Rightarrow> string \<Rightarrow> string \<Rightarrow> sig option" where
  "option_sig m p k =
     (case find (\<lambda>x. param_name x = p) (mparams m) of
        None \<Rightarrow> None
      | Some x \<Rightarrow> find (\<lambda>g. sig_name g = k) (object_members (param_type x)))"

fun interface_extends :: "decl \<Rightarrow> qname list" where
  "interface_extends (DInterface n es ms) = es"
| "interface_extends d = []"

fun interface_members :: "decl \<Rightarrow> sig list" where
  "interface_members (DInterface n es ms) = ms"
| "interface_members d = []"

fun field_of :: "sig \<Rightarrow> (string \<times> ty) option" where
  "field_of (PropSig n opt t d) = Some (n, t)"
| "field_of (MethSig n ps r) = None"

text \<open>The object type an alias stands for, as its list of (name, type) fields.\<close>

definition alias_fields :: "source_file \<Rightarrow> qname \<Rightarrow> (string \<times> ty) list option" where
  "alias_fields f q =
     (case lookup_type (scope f) q of
        Some (DTypeAlias n ps (TObj ms)) \<Rightarrow> those (map field_of ms)
      | _ \<Rightarrow> None)"

text \<open>
  The schema of a schema-field class: the type argument of its base
  \<open>fields.SchemaField<...>\<close>, looked up in the file, when that argument is an alias
  without type arguments of its own that stands for an object type; \<open>None\<close> otherwise
  (the instantiated conditional alias of \<open>PackageCompendiumFolder\<close> is not evaluated).
\<close>

definition class_schema :: "source_file \<Rightarrow> class_decl \<Rightarrow> (string \<times> ty) list option" where
  "class_schema f c =
     (case cextends c of
        Some (EInst (EName b) [TRef q []]) \<Rightarrow>
          (if b = [''fields'', ''SchemaField''] then alias_fields f q else None)
      | _ \<Rightarrow> None)"

text \<open>
  The sub-schema a field \<open>k\<close> of \<open>BasePackage.Schema\<close> has: the field's type names a
  class of the file, whose schema is taken.
\<close>

definition sub_schema :: "source_file \<Rightarrow> string \<Rightarrow> (string \<times> ty) list option" where
  "sub_schema f k =
     (case alias_fields f [''BasePackage'', ''Schema''] of
        None \<Rightarrow> None
      | Some fs \<Rightarrow>
          (case map_of fs k of
             Some (TRef q []) \<Rightarrow>
               (case lookup_type (scope f) q of
                  Some (DClass c) \<Rightarrow> class_schema f c
                | _ \<Rightarrow> None)
           | _ \<Rightarrow> None))"

subsection \<open>Type parameters and conditional types\<close>

text \<open>Substitution of a type \<open>s\<close> for the type parameter \<open>p\<close>.\<close>

primrec subst :: "string \<Rightarrow> ty \<Rightarrow> ty \<Rightarrow> ty"
  and subst_param :: "string \<Rightarrow> ty \<Rightarrow> param \<Rightarrow> param"
  and subst_sig :: "string \<Rightarrow> ty \<Rightarrow> sig \<Rightarrow> sig" where
  "subst p s (TKw k) = TKw k"
| "subst p s TThis = TThis"
| "subst p s (TRef q as) = (if q = [p] \<and> as = [] then s else TRef q (map (subst p s) as))"
| "subst p s (TLitBool b) = TLitBool b"
| "subst p s (TLitStr l) = TLitStr l"
| "subst p s (TLitNum n) = TLitNum n"
| "subst p s (TIndexed t k) = TIndexed (subst p s t) (subst p s k)"
| "subst p s (TUnion ts) = TUnion (map (subst p s) ts)"
| "subst p s (TInter ts) = TInter (map (subst p s) ts)"
| "subst p s (TCond c e a b) = TCond (subst p s c) (subst p s e) (subst p s a) (subst p s b)"
| "subst p s (TArray t) = TArray (subst p s t)"
| "subst p s (TTuple ts) = TTuple (map (subst p s) ts)"
| "subst p s (TTypeof q) = TTypeof q"
| "subst p s (TInfer n) = TInfer n"
| "subst p s (TFun ps r) = TFun (map (subst_param p s) ps) (subst p s r)"
| "subst p s (TObj ms) = TObj (map (subst_sig p s) ms)"
| "subst_param p s (Param n opt t) = Param n opt (subst p s t)"
| "subst_sig p s (PropSig n opt t d) = PropSig n opt (subst p s t) d"
| "subst_sig p s (MethSig n ps r) = MethSig n (map (subst_param p s) ps) (subst p s r)"

text \<open>
  The constituents a conditional type distributes over when its check type is a bare
  type parameter: \<open>boolean\<close> is the union \<open>true | false\<close>, \<open>never\<close> the empty union.
\<close>

fun constituents :: "ty \<Rightarrow> ty list" where
  "constituents (TKw KBoolean) = [TLitBool True, TLitBool False]"
| "constituents (TKw KNever) = []"
| "constituents (TUnion ts) = concat (map constituents ts)"
| "constituents t = [t]"

text \<open>
  \<open>s extends t\<close> for a constituent \<open>s\<close>, on the boolean types; \<open>None\<close> for a pair of
  types whose relation is decided by declarations outside the two files.
\<close>

fun assignable :: "ty \<Rightarrow> ty \<Rightarrow> bool option" where
  "assignable (TLitBool a) (TLitBool b) = Some (a = b)"
| "assignable (TLitBool a) (TKw KBoolean) = Some True"
| "assignable s t = None"

fun union_of :: "ty list \<Rightarrow> ty" where
  "union_of [] = TKw KNever"
| "union_of [t] = t"
| "union_of ts = TUnion ts"

definition branch :: "string \<Rightarrow> ty \<Rightarrow> ty \<Rightarrow> ty \<Rightarrow> ty \<Rightarrow> ty option" where
  "branch p e a b s =
     map_option (\<lambda>yes. subst p s (if yes then a else b)) (assignable s (subst p s e))"

text \<open>
  Instantiating the type parameter \<open>p\<close> with \<open>arg\<close> in a declared type. A conditional
  type whose check type is \<open>p\<close> itself is distributive: it is evaluated at each
  constituent of \<open>arg\<close> and the results are united.
\<close>

definition instantiate :: "string \<Rightarrow> ty \<Rightarrow> ty \<Rightarrow> ty option" where
  "instantiate p arg t =
     (case t of
        TCond c e a b \<Rightarrow>
          (if c = TRef [p] []
           then map_option (\<lambda>rs. union_of (remdups rs)) (those (map (branch p e a b) (constituents arg)))
           else map_option (\<lambda>yes. subst p arg (if yes then a else b))
                  (assignable (subst p arg c) (subst p arg e)))
      | _ \<Rightarrow> Some (subst p arg t))"

text \<open>A type argument satisfies a constraint when each of its constituents extends it.\<close>

definition satisfies :: "ty option \<Rightarrow> ty \<Rightarrow> bool" where
  "satisfies con arg =
     (case con of
        None \<Rightarrow> True
      | Some t \<Rightarrow> list_all (\<lambda>s. assignable s t = Some True) (constituents arg))"

text \<open>
  The declared result of calling a method with at most one type parameter. \<open>targ\<close> is
  the type argument, \<open>None\<close> when the call neither gives nor determines one, in which
  case the parameter's default is taken. A call the compiler rejects has no result:
  a type argument given to a method without type parameters, or one that does not
  satisfy the constraint.
\<close>

definition call_result :: "member \<Rightarrow> ty option \<Rightarrow> ty option" where
  "call_result m targ =
     (case (mtparams m, mtype m) of
        ([], Some r) \<Rightarrow> (case targ of None \<Rightarrow> Some r | Some a \<Rightarrow> None)
      | ([TParam p con dflt], Some r) \<Rightarrow>
          (case (case targ of Some a \<Rightarrow> Some a | None \<Rightarrow> dflt) of
             None \<Rightarrow> None
           | Some a \<Rightarrow> if satisfies con a then instantiate p a r else None)
      | _ \<Rightarrow> None)"

subsection \<open>Values and promises\<close>

text \<open>
  Runtime values, as far as the types written in the two files classify them without
  outside declarations, and the typing of a value; \<open>None\<close> where the answer depends on a
  declaration outside the two files (or on numbers, which are floating point).
\<close>

datatype val = VUndefined | VNull | VBool bool | VStr string | VObj "(string \<times> val) list"

fun is_bool :: "val \<Rightarrow> bool" where
  "is_bool (VBool b) = True"
| "is_bool v = False"

fun is_str :: "val \<Rightarrow> bool" where
  "is_str (VStr s) = True"
| "is_str v = False"

fun is_obj :: "val \<Rightarrow> bool" where
  "is_obj (VObj fs) = True"
| "is_obj v = False"

fun has_type :: "val \<Rightarrow> ty \<Rightarrow> bool option" where
  "has_type v (TKw KNever) = Some False"
| "has_type v (TKw KUnknown) = Some True"
| "has_type v (TKw KBoolean) = Some (is_bool v)"
| "has_type v (TKw KString) = Some (is_str v)"
| "has_type v (TKw KObject) = Some (is_obj v)"
| "has_type v (TKw KNull) = Some (v = VNull)"
| "has_type v (TKw KUndefined) = Some (v = VUndefined)"
| "has_type v (TKw KVoid) = Some (v = VUndefined)"
| "has_type v (TLitBool b) = Some (v = VBool b)"
| "has_type v (TLitStr s) = Some (v = VStr s)"
| "has_type v t = None"

text \<open>The type of the value a promise of the given type fulfils with.\<close>

fun awaited :: "ty \<Rightarrow> ty option" where
  "awaited (TRef q [t]) = (if q = [''Promise''] then Some t else None)"
| "awaited t = None"




subsection \<open>Declarations outside the two files\<close>

datatype outside_kind = Mixin | AbstractClass

text \<open>
  Modelled from the spec: the declarations of \<open>ClientDocumentMixin\<close> and \<open>BaseScene\<close>,
  which are in neither source file. The spec describes \<open>Scene\<close> as ``layered onto a
  mixin (\<open>ClientDocumentMixin\<close>) and an abstract base class (\<open>BaseScene\<close>) that are
  themselves declared elsewhere and not shown''. Nothing else about them is known, so
  the model holds their kind only.
\<close>

definition outside_declarations :: "(string \<times> outside_kind) list" where
  "outside_declarations = [(''ClientDocumentMixin'', Mixin), (''BaseScene'', AbstractClass)]"

text \<open>The kind of the outside declaration a (qualified) name of the sources refers to.\<close>

definition outside_kind_of :: "qname \<Rightarrow> outside_kind option" where
  "outside_kind_of q = (if q = [] then None else map_of outside_declarations (last q))"

text \<open>
  A heritage clause of the form \<open>f(b)\<close>, read against the outside declarations: the
  kind of the applied function and the kind of its argument.
\<close>

fun applied_kinds :: "expr \<Rightarrow> (outside_kind option \<times> outside_kind option) option" where
  "applied_kinds (ECall (EName f) [EName b]) = Some (outside_kind_of f, outside_kind_of b)"
| "applied_kinds e = None"

section \<open>Properties of the declarations\<close>

subsection \<open>Unfolding the two files\<close>

lemmas Scene_member_defs =
  Scene_viewPosition_def Scene_view_flag_def Scene_dimensions_def Scene_thumbnail_def
  Scene_isView_def Scene_activate_def Scene_view_def Scene_clone_def Scene_reset_def
  Scene_prepareBaseData_def Scene_getDimensions_def Scene_onClickDocumentLink_def
  Scene_preCreate_def Scene_onCreate_def Scene_preUpdate_def Scene_repositionObject_def
  Scene_onUpdate_def Scene_preDelete_def Scene_onDelete_def Scene_onActivate_def
  Scene_preCreateDescendantDocuments_def Scene_preUpdateDescendantDocuments_def
  Scene_preDeleteDescendantDocuments_def Scene_onUpdateDescendantDocuments_def
  Scene_toCompendium_def Scene_createThumbnail_def

lemmas BasePackage_member_defs =
  BasePackage_availability_def BasePackage_locked_def BasePackage_exclusive_def
  BasePackage_owned_def BasePackage_tags_def BasePackage_static_type_def
  BasePackage_type_def BasePackage_name_def BasePackage_unavailable_def
  BasePackage_isIncompatibleWithCoreVersion_def BasePackage_collection_def
  BasePackage_defineSchema_def BasePackage_testAvailability_def
  BasePackage_testRequiredDependencies_def BasePackage_testSupportedSystems_def
  BasePackage_testDependencyCompatibility_def BasePackage_cleanData_def
  BasePackage_validateId_def BasePackage_logWarning_def BasePackage_migrateData_def
  BasePackage_migrateNameToId_def BasePackage_migrateDependenciesNameToId_def
  BasePackage_migrateToRelationships_def BasePackage_migrateCompatibility_def
  BasePackage_migrateMediaURL_def BasePackage_migrateOwnership_def
  BasePackage_fromRemoteManifest_def

lemmas alias_defs =
  PackageCompatibilitySchema_def PackageRelationshipsSchema_def RelatedPackageSchema_def
  RecursiveDepth_def PackageCompendiumFolderSchema_def Schema_def PackageManifestData_def

lemmas field_class_defs =
  PackageCompatibility_def PackageRelationships_def RelatedPackage_def
  PackageCompendiumFolder_def CompendiumOwnershipField_def PackageCompendiumPacks_def

lemma all_classes_eq:
  "all_classes = [Scene, PackageCompatibility, PackageRelationships, RelatedPackage,
     PackageCompendiumFolder, CompendiumOwnershipField, PackageCompendiumPacks, BasePackage]"
  by (simp add: all_classes_def repository_def file_classes_def scene_file_def
      package_file_def BasePackage_namespace_def alias_defs SceneDimensions_def
      ThumbnailCreationData_def)

lemma repository_declared_eq:
  "repository_declared =
     [[''Scene''], [''SceneDimensions''], [''ThumbnailCreationData''],
      [''BasePackage''], [''BasePackage'', ''PackageCompatibilitySchema''],
      [''BasePackage'', ''PackageRelationshipsSchema''],
      [''BasePackage'', ''RelatedPackageSchema''],
      [''BasePackage'', ''RecursiveDepth''],
      [''BasePackage'', ''PackageCompendiumFolderSchema''],
      [''BasePackage'', ''Schema''], [''BasePackage'', ''PackageManifestData''],
      [''PackageCompatibility''], [''PackageRelationships''],
      [''RelatedPackage''], [''PackageCompendiumFolder''],
      [''CompendiumOwnershipField''], [''PackageCompendiumPacks''],
      [''BasePackage'']]"
  by (simp add: repository_declared_def repository_def file_declared_def scene_file_def
      package_file_def BasePackage_namespace_def alias_defs SceneDimensions_def
      ThumbnailCreationData_def Scene_def field_class_defs BasePackage_def)

lemma Scene_no_bodies: "\<forall>m \<in> set (cmembers Scene). mbody m = None"
  by (simp add: Scene_def Scene_member_defs)

lemma BasePackage_no_bodies: "\<forall>m \<in> set (cmembers BasePackage). mbody m = None"
  by (simp add: BasePackage_def BasePackage_member_defs)

lemma field_classes_no_members:
  "cmembers PackageCompatibility = []" "cmembers PackageRelationships = []"
  "cmembers RelatedPackage = []" "cmembers PackageCompendiumFolder = []"
  "cmembers CompendiumOwnershipField = []" "cmembers PackageCompendiumPacks = []"
  by (simp_all add: field_class_defs)

lemma base_names_eq:
  "base_names Scene = [[''ClientDocumentMixin''], [''foundry'', ''documents'', ''BaseScene'']]"
  "base_names PackageCompatibility = [[''fields'', ''SchemaField'']]"
  "base_names PackageRelationships = [[''fields'', ''SchemaField'']]"
  "base_names RelatedPackage = [[''fields'', ''SchemaField'']]"
  "base_names PackageCompendiumFolder = [[''fields'', ''SchemaField'']]"
  "base_names CompendiumOwnershipField = [[''fields'', ''ObjectField'']]"
  "base_names PackageCompendiumPacks = [[''fields'', ''SetField'']]"
  "base_names BasePackage = [[''DataModel'']]"
  by (simp_all add: base_names_def Scene_def field_class_defs BasePackage_def)

lemma has_base:
  "cextends Scene \<noteq> None" "cextends PackageCompatibility \<noteq> None"
  "cextends PackageRelationships \<noteq> None" "cextends RelatedPackage \<noteq> None"
  "cextends PackageCompendiumFolder \<noteq> None" "cextends CompendiumOwnershipField \<noteq> None"
  "cextends PackageCompendiumPacks \<noteq> None" "cextends BasePackage \<noteq> None"
  by (simp_all add: Scene_def field_class_defs BasePackage_def)

lemma undefined_roots:
  "\<not> defined_here [''ClientDocumentMixin'']"
  "\<not> defined_here [''foundry'', ''documents'', ''BaseScene'']"
  "\<not> defined_here [''DataModel'']"
  "\<not> defined_here [''fields'', n]"
  by (simp_all add: defined_here_def repository_declared_eq)

subsection \<open>Signatures only, bases from outside\<close>

text \<open>
  C1. The repository is declarations-only. For every class declared in either source
  file, every member (method, getter or property) is a bare signature: it has no body.
  Every class has an \<open>extends\<close> clause, the names in it are either
  \<open>ClientDocumentMixin\<close> applied to \<open>foundry.documents.BaseScene\<close>, or \<open>DataModel\<close>,
  or a class \<open>fields.*\<close>, and none of these names is defined by a declaration of the
  repository.
\<close>

theorem declarations_only:
  "c \<in> set all_classes \<Longrightarrow>
     (\<forall>m \<in> set (cmembers c). mbody m = None) \<and>
     cextends c \<noteq> None \<and>
     (base_names c = [[''ClientDocumentMixin''], [''foundry'', ''documents'', ''BaseScene'']] \<or>
      base_names c = [[''DataModel'']] \<or>
      (\<exists>n. base_names c = [[''fields'', n]])) \<and>
     (\<forall>q \<in> set (base_names c). \<not> defined_here q)"
proof -
  assume "c \<in> set all_classes"
  then consider "c = Scene" | "c = PackageCompatibility" | "c = PackageRelationships"
    | "c = RelatedPackage" | "c = PackageCompendiumFolder" | "c = CompendiumOwnershipField"
    | "c = PackageCompendiumPacks" | "c = BasePackage"
    unfolding all_classes_eq by auto
  then show ?thesis
  proof cases
    case 1
    then show ?thesis
      using Scene_no_bodies by (simp add: base_names_eq has_base undefined_roots)
  next
    case 2
    then show ?thesis
      by (simp add: field_classes_no_members base_names_eq has_base undefined_roots)
  next
    case 3
    then show ?thesis
      by (simp add: field_classes_no_members base_names_eq has_base undefined_roots)
  next
    case 4
    then show ?thesis
      by (simp add: field_classes_no_members base_names_eq has_base undefined_roots)
  next
    case 5
    then show ?thesis
      by (simp add: field_classes_no_members base_names_eq has_base undefined_roots)
  next
    case 6
    then show ?thesis
      by (simp add: field_classes_no_members base_names_eq has_base undefined_roots)
  next
    case 7
    then show ?thesis
      by (simp add: field_classes_no_members base_names_eq has_base undefined_roots)
  next
    case 8
    then show ?thesis
      using BasePackage_no_bodies by (simp add: base_names_eq has_base undefined_roots)
  qed
qed

theorem declarations_only_witness:
  "BasePackage \<in> set all_classes \<and>
   BasePackage_migrateData \<in> set (cmembers BasePackage) \<and>
   mbody BasePackage_migrateData = None \<and>
   [''DataModel''] \<in> set (base_names BasePackage) \<and>
   \<not> defined_here [''DataModel'']"
proof -
  have c: "BasePackage \<in> set all_classes"
    by (simp add: all_classes_eq)
  have m: "BasePackage_migrateData \<in> set (cmembers BasePackage)"
    by (simp add: BasePackage_def)
  have q: "[''DataModel''] \<in> set (base_names BasePackage)"
    by (simp add: base_names_eq)
  from declarations_only [OF c] m q show ?thesis
    using c by blast
qed

subsection \<open>Scene: dimensions, heritage, getters and hooks\<close>

text \<open>
  What the sources hold about the computation of the dimensions: two sentences of the
  doc comment of \<open>getDimensions\<close> (padding, rounding to the nearest 2x grid size, whole
  grid spaces in the padding buffer) and a signature without a body. The computation
  itself is not part of either file, so no statement about the numbers it produces can
  be derived from them.
\<close>

lemma getDimensions_documented_only:
  "mbody Scene_getDimensions = None \<and>
   mdoc Scene_getDimensions =
     [''Get the Canvas dimensions which would be used to display this Scene.'',
      ''Apply padding to enlarge the playable space and round to the nearest 2x grid size to ensure symmetry.'',
      ''The rounding accomplishes that the padding buffer around the map always contains whole grid spaces.'']"
  by (simp add: Scene_getDimensions_def)

text \<open>
  C3. \<open>Scene.getDimensions\<close> is a method without parameters and without a body, declared
  to return \<open>SceneDimensions\<close>. \<open>SceneDimensions\<close> is an interface of the same file that
  extends nothing and has exactly the members \<open>width\<close>, \<open>height\<close>, \<open>size\<close>, \<open>rect\<close>,
  \<open>sceneX\<close>, \<open>sceneY\<close>, \<open>sceneWidth\<close>, \<open>sceneHeight\<close>, \<open>sceneRect\<close>, \<open>distance\<close>,
  \<open>ratio\<close> and \<open>maxR\<close>. The property \<open>dimensions\<close> is annotated
  \<open>ReturnType<this["getDimensions"]>\<close>, which resolves, whatever the base provides, to
  that same return type.
\<close>

theorem getDimensions_shape:
  "instance_member Scene ''getDimensions'' = Some Scene_getDimensions \<and>
   mkind Scene_getDimensions = Method \<and>
   mparams Scene_getDimensions = [] \<and>
   mbody Scene_getDimensions = None \<and>
   mtype Scene_getDimensions = Some (TRef [''SceneDimensions''] []) \<and>
   lookup_type (scope scene_file) [''SceneDimensions''] = Some SceneDimensions \<and>
   interface_extends SceneDimensions = [] \<and>
   map sig_name (interface_members SceneDimensions) =
     [''width'', ''height'', ''size'', ''rect'', ''sceneX'', ''sceneY'', ''sceneWidth'',
      ''sceneHeight'', ''sceneRect'', ''distance'', ''ratio'', ''maxR''] \<and>
   instance_member Scene ''dimensions'' = Some Scene_dimensions \<and>
   mkind Scene_dimensions = Property \<and>
   mtype Scene_dimensions =
     Some (TRef [''ReturnType''] [TIndexed TThis (TLitStr ''getDimensions'')]) \<and>
   (\<forall>inh. accessor_type inh Scene ''dimensions'' = mtype Scene_getDimensions)"
proof -
  have g: "instance_member Scene ''getDimensions'' = Some Scene_getDimensions"
    by (simp add: instance_member_def Scene_def Scene_member_defs)
  have d: "instance_member Scene ''dimensions'' = Some Scene_dimensions"
    by (simp add: instance_member_def Scene_def Scene_member_defs)
  have l: "lookup_type (scope scene_file) [''SceneDimensions''] = Some SceneDimensions"
    by (simp add: scope_def scene_file_def Scene_def SceneDimensions_def
        ThumbnailCreationData_def)
  have i: "map sig_name (interface_members SceneDimensions) =
     [''width'', ''height'', ''size'', ''rect'', ''sceneX'', ''sceneY'', ''sceneWidth'',
      ''sceneHeight'', ''sceneRect'', ''distance'', ''ratio'', ''maxR'']"
    by (simp add: SceneDimensions_def)
  have e: "interface_extends SceneDimensions = []"
    by (simp add: SceneDimensions_def)
  have r: "accessor_type inh Scene ''dimensions'' = mtype Scene_getDimensions" for inh
    unfolding accessor_type_def d
    by (simp add: this_index_def g member_type_def Scene_dimensions_def
        Scene_getDimensions_def)
  show ?thesis
    using g d l i e r by (simp add: Scene_getDimensions_def Scene_dimensions_def)
qed

text \<open>
  C4. \<open>Scene\<close> is declared with the heritage clause
  \<open>extends ClientDocumentMixin(foundry.documents.BaseScene)\<close>: the mixin
  \<open>ClientDocumentMixin\<close> applied to the base \<open>foundry.documents.BaseScene\<close>. Its doc
  comment calls it the client-side Scene document extending the common BaseScene
  model. No declaration of either file introduces a name with the component
  \<open>ClientDocumentMixin\<close>, \<open>foundry\<close> or \<open>BaseScene\<close>, and neither file imports one.
  That the applied function is a mixin and its argument an abstract class is read from
  the outside declarations as the spec describes them; the two files do not say it.
\<close>

theorem Scene_heritage:
  "Scene \<in> set (file_classes scene_file) \<and>
   cextends Scene =
     Some (ECall (EName [''ClientDocumentMixin''])
             [EName [''foundry'', ''documents'', ''BaseScene'']]) \<and>
   Option.bind (cextends Scene) applied_kinds = Some (Some Mixin, Some AbstractClass) \<and>
   take 1 (cdoc Scene) =
     [''The client-side Scene document which extends the common BaseScene model.''] \<and>
   \<not> defined_here [''ClientDocumentMixin''] \<and>
   \<not> defined_here [''foundry'', ''documents'', ''BaseScene''] \<and>
   list_all (\<lambda>q. ''ClientDocumentMixin'' \<notin> set q \<and> ''foundry'' \<notin> set q \<and> ''BaseScene'' \<notin> set q)
     repository_declared \<and>
   list_all (\<lambda>f. ''ClientDocumentMixin'' \<notin> set (file_imported f) \<and>
                 ''foundry'' \<notin> set (file_imported f) \<and>
                 ''BaseScene'' \<notin> set (file_imported f)) repository"
proof -
  have c: "Scene \<in> set (file_classes scene_file)"
    by (simp add: file_classes_def scene_file_def SceneDimensions_def
        ThumbnailCreationData_def)
  have d: "list_all (\<lambda>q. ''ClientDocumentMixin'' \<notin> set q \<and> ''foundry'' \<notin> set q \<and>
                        ''BaseScene'' \<notin> set q) repository_declared"
    by (simp add: repository_declared_eq)
  have i: "list_all (\<lambda>f. ''ClientDocumentMixin'' \<notin> set (file_imported f) \<and>
                 ''foundry'' \<notin> set (file_imported f) \<and>
                 ''BaseScene'' \<notin> set (file_imported f)) repository"
    by (simp add: repository_def file_imported_def scene_file_def package_file_def)
  have k: "Option.bind (cextends Scene) applied_kinds = Some (Some Mixin, Some AbstractClass)"
    by (simp add: Scene_def outside_kind_of_def outside_declarations_def)
  show ?thesis
    using c d i k by (simp add: undefined_roots Scene_def)
qed

text \<open>
  C5. \<open>Scene\<close> declares the getter \<open>thumbnail\<close> of type \<open>this["thumb"]\<close> and the getter
  \<open>isView\<close> of type \<open>boolean\<close>. Its members marked \<open>protected override\<close> are exactly
  the lifecycle hooks \<open>_preCreate\<close>, \<open>_onCreate\<close>, \<open>_preUpdate\<close>, \<open>_onUpdate\<close>,
  \<open>_preDelete\<close> and \<open>_onDelete\<close>. The getters and the hooks are signatures without a
  body.
\<close>

theorem Scene_getters_and_hooks:
  "instance_member Scene ''thumbnail'' = Some Scene_thumbnail \<and>
   mkind Scene_thumbnail = Getter \<and>
   mtype Scene_thumbnail = Some (TIndexed TThis (TLitStr ''thumb'')) \<and>
   mbody Scene_thumbnail = None \<and>
   instance_member Scene ''isView'' = Some Scene_isView \<and>
   mkind Scene_isView = Getter \<and>
   mtype Scene_isView = Some (TKw KBoolean) \<and>
   mbody Scene_isView = None \<and>
   protected_overrides Scene =
     [Scene_preCreate, Scene_onCreate, Scene_preUpdate, Scene_onUpdate, Scene_preDelete,
      Scene_onDelete] \<and>
   map mname (protected_overrides Scene) =
     [''_preCreate'', ''_onCreate'', ''_preUpdate'', ''_onUpdate'', ''_preDelete'',
      ''_onDelete''] \<and>
   list_all (\<lambda>m. mkind m = Method \<and> mbody m = None) (protected_overrides Scene)"
proof -
  have t: "instance_member Scene ''thumbnail'' = Some Scene_thumbnail"
    by (simp add: instance_member_def Scene_def Scene_member_defs)
  have v: "instance_member Scene ''isView'' = Some Scene_isView"
    by (simp add: instance_member_def Scene_def Scene_member_defs)
  have p: "protected_overrides Scene =
     [Scene_preCreate, Scene_onCreate, Scene_preUpdate, Scene_onUpdate, Scene_preDelete,
      Scene_onDelete]"
    by (simp add: protected_overrides_def Scene_def Scene_member_defs)
  show ?thesis
    unfolding p using t v
    by (simp add: Scene_thumbnail_def Scene_isView_def Scene_preCreate_def
        Scene_onCreate_def Scene_preUpdate_def Scene_onUpdate_def Scene_preDelete_def
        Scene_onDelete_def)
qed

subsection \<open>BasePackage: sub-schemas and static methods\<close>

lemma Schema_fields:
  "alias_fields package_file [''BasePackage'', ''Schema''] =
     Some [(''id'', TRef [''fields'', ''StringField''] []),
           (''title'', TRef [''fields'', ''StringField''] []),
           (''description'', TRef [''fields'', ''StringField''] []),
           (''authors'', TRef [''fields'', ''SetField''] []),
           (''url'', TRef [''fields'', ''StringField''] []),
           (''license'', TRef [''fields'', ''StringField''] []),
           (''readme'', TRef [''fields'', ''StringField''] []),
           (''bugs'', TRef [''fields'', ''StringField''] []),
           (''changelog'', TRef [''fields'', ''StringField''] []),
           (''flags'', TRef [''fields'', ''ObjectField''] []),
           (''media'', TRef [''fields'', ''SetField''] []),
           (''version'', TRef [''fields'', ''StringField''] []),
           (''compatibility'', TRef [''PackageCompatibility''] []),
           (''scripts'', TRef [''fields'', ''SetField''] []),
           (''esmodules'', TRef [''fields'', ''SetField''] []),
           (''styles'', TRef [''fields'', ''SetField''] []),
           (''languages'', TRef [''fields'', ''SetField''] []),
           (''packs'', TRef [''PackageCompendiumPacks''] []),
           (''packFolders'', TRef [''fields'', ''SetField''] []),
           (''relationships'', TRef [''PackageRelationships''] []),
           (''socket'', TRef [''fields'', ''BooleanField''] []),
           (''manifest'', TRef [''fields'', ''StringField''] []),
           (''download'', TRef [''fields'', ''StringField''] []),
           (''protected'', TRef [''fields'', ''BooleanField''] []),
           (''exclusive'', TRef [''fields'', ''BooleanField''] []),
           (''persistentStorage'', TRef [''fields'', ''BooleanField''] [])]"
  by (simp add: alias_fields_def scope_def package_file_def BasePackage_namespace_def
      alias_defs)

lemma compatibility_alias:
  "alias_fields package_file [''BasePackage'', ''PackageCompatibilitySchema''] =
     Some [(''minimum'', TRef [''fields'', ''StringField''] []),
           (''verified'', TRef [''fields'', ''StringField''] []),
           (''maximum'', TRef [''fields'', ''StringField''] [])]"
  by (simp add: alias_fields_def scope_def package_file_def BasePackage_namespace_def
      alias_defs)

lemma relationships_alias:
  "alias_fields package_file [''BasePackage'', ''PackageRelationshipsSchema''] =
     Some [(''systems'', TRef [''fields'', ''SetField''] []),
           (''requires'', TRef [''fields'', ''SetField''] []),
           (''recommends'', TRef [''fields'', ''SetField''] []),
           (''conflicts'', TRef [''fields'', ''SetField''] []),
           (''flags'', TRef [''fields'', ''ObjectField''] [])]"
  by (simp add: alias_fields_def scope_def package_file_def BasePackage_namespace_def
      alias_defs)

lemma lookup_field_classes:
  "lookup_type (scope package_file) [''PackageCompatibility''] = Some (DClass PackageCompatibility)"
  "lookup_type (scope package_file) [''PackageRelationships''] = Some (DClass PackageRelationships)"
  by (simp_all add: scope_def package_file_def BasePackage_namespace_def field_class_defs)

text \<open>
  C6. The \<open>compatibility\<close> field of \<open>BasePackage.Schema\<close> is a \<open>PackageCompatibility\<close>,
  whose schema has exactly the three fields \<open>minimum\<close>, \<open>verified\<close> and \<open>maximum\<close>,
  each a \<open>fields.StringField\<close>; its doc comment documents them as: the package will
  not function before this version, verified compatible up to this version, the
  package will not function after this version. The \<open>relationships\<close> field is a
  \<open>PackageRelationships\<close>, whose schema has the \<open>fields.SetField\<close> fields \<open>systems\<close>,
  \<open>requires\<close>, \<open>recommends\<close> and \<open>conflicts\<close> and the \<open>fields.ObjectField\<close> field
  \<open>flags\<close>.
\<close>

theorem package_sub_schemas:
  "sub_schema package_file ''compatibility'' =
     Some [(''minimum'', TRef [''fields'', ''StringField''] []),
           (''verified'', TRef [''fields'', ''StringField''] []),
           (''maximum'', TRef [''fields'', ''StringField''] [])] \<and>
   class_schema package_file PackageCompatibility = sub_schema package_file ''compatibility'' \<and>
   cdoc PackageCompatibility =
     [''A custom SchemaField for defining package compatibility versions.'',
      ''@property {string} minimum     The Package will not function before this version'',
      ''@property {string} verified    Verified compatible up to this version'',
      ''@property {string} maximum     The Package will not function after this version''] \<and>
   sub_schema package_file ''relationships'' =
     Some [(''systems'', TRef [''fields'', ''SetField''] []),
           (''requires'', TRef [''fields'', ''SetField''] []),
           (''recommends'', TRef [''fields'', ''SetField''] []),
           (''conflicts'', TRef [''fields'', ''SetField''] []),
           (''flags'', TRef [''fields'', ''ObjectField''] [])] \<and>
   class_schema package_file PackageRelationships = sub_schema package_file ''relationships''"
proof -
  have c: "class_schema package_file PackageCompatibility =
     alias_fields package_file [''BasePackage'', ''PackageCompatibilitySchema'']"
    by (simp add: class_schema_def PackageCompatibility_def)
  have r: "class_schema package_file PackageRelationships =
     alias_fields package_file [''BasePackage'', ''PackageRelationshipsSchema'']"
    by (simp add: class_schema_def PackageRelationships_def)
  have sc: "sub_schema package_file ''compatibility'' =
     class_schema package_file PackageCompatibility"
    unfolding sub_schema_def Schema_fields
    by (simp del: lookup_type.simps add: lookup_field_classes)
  have sr: "sub_schema package_file ''relationships'' =
     class_schema package_file PackageRelationships"
    unfolding sub_schema_def Schema_fields
    by (simp del: lookup_type.simps add: lookup_field_classes)
  show ?thesis
    unfolding sc sr c r compatibility_alias relationships_alias
    by (simp add: PackageCompatibility_def)
qed

text \<open>
  C7. \<open>BasePackage\<close> declares the static method \<open>testAvailability(data, options)\<close>,
  without a body, with declared result \<open>CONST.PACKAGE_AVAILABILITY_CODES\<close>; its option
  \<open>release\<close> is documented as testing against the current release by default. It
  declares the static method \<open>migrateData(data, logOptions)\<close>, without a body, with
  declared result \<open>object\<close>.
\<close>

theorem availability_and_migration_signatures:
  "static_member BasePackage ''testAvailability'' = Some BasePackage_testAvailability \<and>
   mkind BasePackage_testAvailability = Method \<and>
   Static \<in> set (mmods BasePackage_testAvailability) \<and>
   mbody BasePackage_testAvailability = None \<and>
   map param_name (mparams BasePackage_testAvailability) = [''data'', ''options''] \<and>
   mtype BasePackage_testAvailability = Some (TRef [''CONST'', ''PACKAGE_AVAILABILITY_CODES''] []) \<and>
   option_sig BasePackage_testAvailability ''options'' ''release'' =
     Some (PropSig ''release'' False (TRef [''ReleaseData''] [])
             [''A specific software release for which to test availability.'',
              ''Tests against the current release by default.'']) \<and>
   static_member BasePackage ''migrateData'' = Some BasePackage_migrateData \<and>
   mkind BasePackage_migrateData = Method \<and>
   Static \<in> set (mmods BasePackage_migrateData) \<and>
   mbody BasePackage_migrateData = None \<and>
   map param_name (mparams BasePackage_migrateData) = [''data'', ''logOptions''] \<and>
   mtype BasePackage_migrateData = Some (TKw KObject)"
proof -
  have t: "static_member BasePackage ''testAvailability'' = Some BasePackage_testAvailability"
    by (simp add: static_member_def BasePackage_def BasePackage_member_defs)
  have m: "static_member BasePackage ''migrateData'' = Some BasePackage_migrateData"
    by (simp add: static_member_def BasePackage_def BasePackage_member_defs)
  have o: "option_sig BasePackage_testAvailability ''options'' ''release'' =
     Some (PropSig ''release'' False (TRef [''ReleaseData''] [])
             [''A specific software release for which to test availability.'',
              ''Tests against the current release by default.''])"
    by (simp add: option_sig_def BasePackage_testAvailability_def)
  show ?thesis
    using t m o by (simp add: BasePackage_testAvailability_def BasePackage_migrateData_def)
qed







text \<open>
  C10. \<open>BasePackage.fromRemoteManifest(manifestUrl, options)\<close> is a static method
  without a body and without type parameters, so its declared result is the same for
  every call: \<open>Promise<never>\<close>. The type the promise fulfils with is \<open>never\<close>, and no
  value has type \<open>never\<close>. Its doc comment nevertheless says that the promise resolves
  to a constructed ServerPackage instance, and that an error is thrown if the retrieved
  manifest data is invalid.
\<close>

theorem fromRemoteManifest_never_fulfils:
  "static_member BasePackage ''fromRemoteManifest'' = Some BasePackage_fromRemoteManifest \<and>
   mkind BasePackage_fromRemoteManifest = Method \<and>
   mbody BasePackage_fromRemoteManifest = None \<and>
   mtparams BasePackage_fromRemoteManifest = [] \<and>
   map param_name (mparams BasePackage_fromRemoteManifest) = [''manifestUrl'', ''options''] \<and>
   call_result BasePackage_fromRemoteManifest None = Some (TRef [''Promise''] [TKw KNever]) \<and>
   Option.bind (call_result BasePackage_fromRemoteManifest None) awaited = Some (TKw KNever) \<and>
   (\<forall>v. has_type v (TKw KNever) = Some False) \<and>
   filter (\<lambda>l. take 8 l = ''@returns'' \<or> take 7 l = ''@throws'') (mdoc BasePackage_fromRemoteManifest) =
     [''@returns A Promise which resolves to a constructed ServerPackage instance'',
      ''@throws An error if the retrieved manifest data is invalid'']"
proof -
  have s: "static_member BasePackage ''fromRemoteManifest'' = Some BasePackage_fromRemoteManifest"
    by (simp add: static_member_def BasePackage_def BasePackage_member_defs)
  have r: "call_result BasePackage_fromRemoteManifest None = Some (TRef [''Promise''] [TKw KNever])"
    by (simp add: call_result_def BasePackage_fromRemoteManifest_def)
  show ?thesis
    unfolding r using s by (simp add: BasePackage_fromRemoteManifest_def)
qed

subsection \<open>Scene.clone: the result by the type argument\<close>

lemma those_map_Some:
  "(\<And>x. x \<in> set xs \<Longrightarrow> f x = Some (g x)) \<Longrightarrow> those (map f xs) = Some (map g xs)"
  by (induction xs) simp_all

lemma extends_boolean_cases:
  "assignable s (TKw KBoolean) = Some True \<Longrightarrow> \<exists>b. s = TLitBool b"
  by (cases "(s, TKw KBoolean)" rule: assignable.cases) simp_all

lemma clone_branch:
  assumes "assignable s (TKw KBoolean) = Some True"
  shows "branch ''Save'' (TLitBool True) (TRef [''Promise''] [TThis]) TThis s =
         Some (if s = TLitBool True then TRef [''Promise''] [TThis] else TThis)"
proof -
  from assms obtain b where "s = TLitBool b"
    using extends_boolean_cases by blast
  then show ?thesis
    by (cases b) (simp_all add: branch_def)
qed

lemma clone_general:
  assumes "satisfies (Some (TKw KBoolean)) a"
  shows "call_result Scene_clone (Some a) =
         Some (union_of (remdups (map (\<lambda>s. if s = TLitBool True then TRef [''Promise''] [TThis]
                                          else TThis) (constituents a))))"
proof -
  have each: "\<And>s. s \<in> set (constituents a) \<Longrightarrow> assignable s (TKw KBoolean) = Some True"
    using assms by (simp add: satisfies_def list_all_iff)
  have "those (map (branch ''Save'' (TLitBool True) (TRef [''Promise''] [TThis]) TThis)
                 (constituents a)) =
        Some (map (\<lambda>s. if s = TLitBool True then TRef [''Promise''] [TThis] else TThis)
                (constituents a))"
    by (rule those_map_Some) (simp add: clone_branch each)
  then show ?thesis
    using assms by (simp add: call_result_def Scene_clone_def instantiate_def)
qed

text \<open>
  C8, as stated, fails. The claim says that whenever \<open>Save\<close> is not \<open>true\<close> the declared
  result of \<open>clone\<close> is \<open>this\<close>. \<open>Save\<close> is constrained by \<open>extends boolean\<close>, so it may
  be \<open>boolean\<close> itself (a \<open>save\<close> option whose value is not known statically); the
  conditional type then distributes over \<open>true | false\<close> and the declared result is
  \<open>Promise<this> | this\<close>, not \<open>this\<close>.
\<close>

theorem clone_boolean_not_this:
  "satisfies (Some (TKw KBoolean)) (TKw KBoolean) \<and>
   TKw KBoolean \<noteq> TLitBool True \<and>
   call_result Scene_clone (Some (TKw KBoolean)) =
     Some (TUnion [TRef [''Promise''] [TThis], TThis]) \<and>
   call_result Scene_clone (Some (TKw KBoolean)) \<noteq> Some TThis"
  by (simp add: satisfies_def call_result_def Scene_clone_def instantiate_def branch_def)

text \<open>
  C8, amended. \<open>clone\<close> has one type parameter \<open>Save extends boolean = false\<close>, which is
  the type of the option \<open>save\<close> of its parameter \<open>context\<close>; both parameters are
  optional, and the doc comment gives \<open>{}\<close> as the default of each (it calls the
  second one \<open>options\<close>). Its declared result is \<open>Promise<this>\<close> when \<open>Save\<close> is \<open>true\<close>, and \<open>this\<close>
  when \<open>Save\<close> is \<open>false\<close>, which includes the default. For \<open>Save = boolean\<close> it is the
  union \<open>Promise<this> | this\<close>. In general, for every \<open>Save\<close> that satisfies the
  constraint, the result is the union, over the constituents of \<open>Save\<close>, of
  \<open>Promise<this>\<close> for \<open>true\<close> and \<open>this\<close> for \<open>false\<close>.
\<close>

theorem clone_result_by_Save:
  "mtparams Scene_clone = [TParam ''Save'' (Some (TKw KBoolean)) (Some (TLitBool False))] \<and>
   map param_name (mparams Scene_clone) = [''createData'', ''context''] \<and>
   map param_optional (mparams Scene_clone) = [True, True] \<and>
   mdoc Scene_clone =
     [''@param createData - (default: `{}`)'', ''@param options    - (default: `{}`)''] \<and>
   option_sig Scene_clone ''context'' ''save'' =
     Some (PropSig ''save'' False (TRef [''Save''] [])
             [''Save the clone to the World database?'', ''@defaultValue `false`'']) \<and>
   call_result Scene_clone (Some (TLitBool True)) = Some (TRef [''Promise''] [TThis]) \<and>
   call_result Scene_clone (Some (TLitBool False)) = Some TThis \<and>
   call_result Scene_clone None = Some TThis \<and>
   call_result Scene_clone (Some (TKw KBoolean)) =
     Some (TUnion [TRef [''Promise''] [TThis], TThis]) \<and>
   (\<forall>a. satisfies (Some (TKw KBoolean)) a \<longrightarrow>
      call_result Scene_clone (Some a) =
        Some (union_of (remdups (map (\<lambda>s. if s = TLitBool True then TRef [''Promise''] [TThis]
                                         else TThis) (constituents a)))))"
proof -
  have o: "option_sig Scene_clone ''context'' ''save'' =
     Some (PropSig ''save'' False (TRef [''Save''] [])
             [''Save the clone to the World database?'', ''@defaultValue `false`''])"
    by (simp add: option_sig_def Scene_clone_def)
  have t: "call_result Scene_clone (Some (TLitBool True)) = Some (TRef [''Promise''] [TThis])"
    by (simp add: satisfies_def call_result_def Scene_clone_def instantiate_def branch_def)
  have f: "call_result Scene_clone (Some (TLitBool False)) = Some TThis"
    by (simp add: satisfies_def call_result_def Scene_clone_def instantiate_def branch_def)
  have d: "call_result Scene_clone None = Some TThis"
    by (simp add: satisfies_def call_result_def Scene_clone_def instantiate_def branch_def)
  have b: "call_result Scene_clone (Some (TKw KBoolean)) =
     Some (TUnion [TRef [''Promise''] [TThis], TThis])"
    by (simp add: satisfies_def call_result_def Scene_clone_def instantiate_def branch_def)
  have p: "mtparams Scene_clone = [TParam ''Save'' (Some (TKw KBoolean)) (Some (TLitBool False))]"
    "map param_name (mparams Scene_clone) = [''createData'', ''context'']"
    "map param_optional (mparams Scene_clone) = [True, True]"
    "mdoc Scene_clone =
       [''@param createData - (default: `{}`)'', ''@param options    - (default: `{}`)'']"
    by (simp_all add: Scene_clone_def)
  show ?thesis
    using o t f d b p clone_general by blast
qed

theorem clone_result_by_Save_witness:
  "satisfies (Some (TKw KBoolean)) (TUnion [TLitBool False, TKw KNever]) \<and>
   call_result Scene_clone (Some (TUnion [TLitBool False, TKw KNever])) = Some TThis"
proof -
  have s: "satisfies (Some (TKw KBoolean)) (TUnion [TLitBool False, TKw KNever])"
    by (simp add: satisfies_def)
  from clone_result_by_Save s
  have "call_result Scene_clone (Some (TUnion [TLitBool False, TKw KNever])) =
        Some (union_of (remdups (map (\<lambda>s. if s = TLitBool True then TRef [''Promise''] [TThis]
                                         else TThis)
                                   (constituents (TUnion [TLitBool False, TKw KNever])))))"
    by blast
  then show ?thesis
    using s by simp
qed

end
